theory Spec2Isabelle
  imports Main
begin

section \<open>Strings\<close>

text \<open>
  Python strings are modelled as HOL strings whose characters are the code points below
  256. \<open>lower\<close> is \<open>str.lower\<close>: it maps \<open>A\<close> to \<open>Z\<close> and the capital letters
  from U+00C0 to U+00DE (U+00D7, the multiplication sign, is no letter) to the letter
  32 code points further. \<open>is_space\<close> is \<open>str.isspace\<close> on one character: the
  blanks of ASCII, U+0085 and U+00A0. \<open>strip\<close> is \<open>str.strip\<close> without arguments.
\<close>

definition upper_letters :: string where
  "upper_letters =
     ''ABCDEFGHIJKLMNOPQRSTUVWXYZ'' @
     [CHR 0xC0, CHR 0xC1, CHR 0xC2, CHR 0xC3, CHR 0xC4, CHR 0xC5, CHR 0xC6,
      CHR 0xC7, CHR 0xC8, CHR 0xC9, CHR 0xCA, CHR 0xCB, CHR 0xCC, CHR 0xCD,
      CHR 0xCE, CHR 0xCF, CHR 0xD0, CHR 0xD1, CHR 0xD2, CHR 0xD3, CHR 0xD4,
      CHR 0xD5, CHR 0xD6, CHR 0xD8, CHR 0xD9, CHR 0xDA, CHR 0xDB, CHR 0xDC,
      CHR 0xDD, CHR 0xDE]"

definition lower_letters :: string where
  "lower_letters =
     ''abcdefghijklmnopqrstuvwxyz'' @
     [CHR 0xE0, CHR 0xE1, CHR 0xE2, CHR 0xE3, CHR 0xE4, CHR 0xE5, CHR 0xE6,
      CHR 0xE7, CHR 0xE8, CHR 0xE9, CHR 0xEA, CHR 0xEB, CHR 0xEC, CHR 0xED,
      CHR 0xEE, CHR 0xEF, CHR 0xF0, CHR 0xF1, CHR 0xF2, CHR 0xF3, CHR 0xF4,
      CHR 0xF5, CHR 0xF6, CHR 0xF8, CHR 0xF9, CHR 0xFA, CHR 0xFB, CHR 0xFC,
      CHR 0xFD, CHR 0xFE]"

definition lower_char :: "char \<Rightarrow> char" where
  "lower_char c =
     (case map_of (zip upper_letters lower_letters) c of
        Some l \<Rightarrow> l
      | None \<Rightarrow> c)"

definition lower :: "string \<Rightarrow> string" where
  "lower s = map lower_char s"

definition is_space :: "char \<Rightarrow> bool" where
  "is_space c =
     (c \<in> set [CHR 0x09, CHR 0x0A, CHR 0x0B, CHR 0x0C, CHR 0x0D,
                CHR 0x1C, CHR 0x1D, CHR 0x1E, CHR 0x1F, CHR 0x20,
                CHR 0x85, CHR 0xA0])"

definition strip :: "string \<Rightarrow> string" where
  "strip s = rev (dropWhile is_space (rev (dropWhile is_space s)))"

text \<open>The character class \<open>[a-z0-9]\<close> and \<open>re.sub(r'[^a-z0-9]', '', s)\<close>.\<close>

definition is_lower_alnum :: "char \<Rightarrow> bool" where
  "is_lower_alnum c = (c \<in> set ''abcdefghijklmnopqrstuvwxyz0123456789'')"

definition sub_non_alnum :: "string \<Rightarrow> string" where
  "sub_non_alnum s = filter is_lower_alnum s"

text \<open>
  \<open>str.rfind\<close> of a single character: the index of its last occurrence, \<open>-1\<close> when
  there is none.
\<close>

primrec rfind_from :: "char \<Rightarrow> string \<Rightarrow> int \<Rightarrow> int \<Rightarrow> int" where
  "rfind_from c [] i found = found"
| "rfind_from c (x # xs) i found = rfind_from c xs (i + 1) (if x = c then i else found)"

definition rfind :: "char \<Rightarrow> string \<Rightarrow> int" where
  "rfind c p = rfind_from c p 0 (- 1)"

text \<open>
  \<open>os.path.splitext\<close> on POSIX paths: the extension starts at the last dot that follows
  the last slash, unless only dots stand between that slash and the dot.
\<close>

definition splitext :: "string \<Rightarrow> string \<times> string" where
  "splitext p =
     (let sepIndex = rfind (CHR ''/'') p;
          dotIndex = rfind (CHR ''.'') p
      in if dotIndex > sepIndex \<and>
            list_ex (\<lambda>ch. ch \<noteq> CHR ''.'')
              (take (nat (dotIndex - (sepIndex + 1))) (drop (nat (sepIndex + 1)) p))
         then (take (nat dotIndex) p, drop (nat dotIndex) p)
         else (p, []))"

section \<open>Language detection\<close>

definition EXTENSION_TO_LANG :: "(string \<times> string) list" where
  "EXTENSION_TO_LANG =
     [(''.py'', ''python''), (''.js'', ''javascript''), (''.java'', ''java''),
      (''.c'', ''c''), (''.cpp'', ''cpp''), (''.cc'', ''cpp''), (''.cxx'', ''cpp''),
      (''.cs'', ''csharp''), (''.go'', ''go''), (''.rb'', ''ruby''), (''.php'', ''php''),
      (''.rs'', ''rust''), (''.ts'', ''typescript''), (''.kt'', ''kotlin''),
      (''.swift'', ''swift''), (''.scala'', ''scala''), (''.pl'', ''perl''),
      (''.r'', ''r''), (''.sh'', ''bash''), (''.html'', ''html''), (''.css'', ''css''),
      (''.sql'', ''sql''), (''.json'', ''json''), (''.xml'', ''xml''),
      (''.yaml'', ''yaml''), (''.yml'', ''yaml''), (''.md'', ''markdown'')]"

definition pygments_to_lang :: "(string \<times> string) list" where
  "pygments_to_lang =
     [(''python'', ''python''), (''py'', ''python''), (''python3'', ''python''),
      (''javascript'', ''javascript''), (''js'', ''javascript''), (''java'', ''java''),
      (''c'', ''c''), (''c++'', ''cpp''), (''cpp'', ''cpp''), (''c#'', ''csharp''),
      (''csharp'', ''csharp''), (''c-sharp'', ''csharp''),
      (''c# (c-sharp)'', ''csharp''), (''go'', ''go''), (''golang'', ''go''),
      (''ruby'', ''ruby''), (''rb'', ''ruby''), (''php'', ''php''), (''rust'', ''rust''),
      (''typescript'', ''typescript''), (''ts'', ''typescript''),
      (''kotlin'', ''kotlin''), (''swift'', ''swift''), (''scala'', ''scala''),
      (''perl'', ''perl''), (''r'', ''r''), (''bash'', ''bash''), (''sh'', ''bash''),
      (''shell'', ''bash''), (''html'', ''html''), (''xml+html'', ''html''),
      (''css'', ''css''), (''sql'', ''sql''), (''json'', ''json''), (''xml'', ''xml''),
      (''yaml'', ''yaml''), (''yml'', ''yaml''), (''markdown'', ''markdown''),
      (''md'', ''markdown'')]"

text \<open>
  Python's truth value of \<open>detected_language\<close>: \<open>None\<close> and the empty string are
  false.
\<close>

definition truthy :: "string option \<Rightarrow> bool" where
  "truthy d = (case d of None \<Rightarrow> False | Some s \<Rightarrow> s \<noteq> [])"

text \<open>
  The loop over \<open>pygments_to_lang.items()\<close>: the value of the first key, in the table's
  order, whose stripped form equals \<open>simple_name\<close>.
\<close>

fun stripped_match :: "string \<Rightarrow> (string \<times> string) list \<Rightarrow> string option" where
  "stripped_match simple_name [] = None"
| "stripped_match simple_name ((key, val) # items) =
     (if sub_non_alnum (lower key) = simple_name then Some val
      else stripped_match simple_name items)"

text \<open>
  What follows \<open>guess_lexer\<close> inside the \<open>try\<close> block, from the lexer's name to the
  value of \<open>detected_language\<close>.
\<close>

definition normalize_name :: "string \<Rightarrow> string option" where
  "normalize_name lexer_name =
     (let pygments_name = lower lexer_name;
          d1 = map_of pygments_to_lang pygments_name;
          d2 = (if \<not> truthy d1 then map_of pygments_to_lang (lower pygments_name) else d1);
          d3 = (if \<not> truthy d2
                then (case stripped_match (sub_non_alnum (lower pygments_name)) pygments_to_lang of
                        Some v \<Rightarrow> Some v | None \<Rightarrow> d2)
                else d2)
      in if \<not> truthy d3 then Some pygments_name else d3)"

text \<open>
  The lexer-guessing heuristic is an external collaborator: it returns a lexer, of which
  the program reads the name, or raises \<open>ClassNotFound\<close>. \<open>guess_lexer\<close> itself is
  \<open>None\<close> when the library could not be imported.
\<close>

datatype guess_outcome = Lexer string | ClassNotFound

record uploaded =
  file_name :: string
  file_text :: string

text \<open>
  Lines 151 to 220: the detected language, paired with the texts on which the heuristic
  was called.
\<close>

definition by_extension :: "uploaded option \<Rightarrow> string option" where
  "by_extension uploaded_file =
     (case uploaded_file of
        None \<Rightarrow> None
      | Some f \<Rightarrow>
          if file_name f \<noteq> []
          then map_of EXTENSION_TO_LANG (lower (snd (splitext (file_name f))))
          else None)"

definition detect_language ::
  "(string \<Rightarrow> guess_outcome) option \<Rightarrow> uploaded option \<Rightarrow> string \<Rightarrow>
   string option \<times> string list" where
  "detect_language guess_lexer uploaded_file messy_code =
     (let detected = by_extension uploaded_file
      in if \<not> truthy detected \<and> messy_code \<noteq> []
         then (case guess_lexer of
                 None \<Rightarrow> (detected, [])
               | Some guess \<Rightarrow>
                   (case guess messy_code of
                      Lexer lexer_name \<Rightarrow> (normalize_name lexer_name, [messy_code])
                    | ClassNotFound \<Rightarrow> (None, [messy_code])))
         else (detected, []))"

section \<open>Session state\<close>

text \<open>
  One entry of \<open>st.session_state.history\<close>; \<open>language\<close> holds the value of
  \<open>detected_language\<close> at the time, which may be \<open>None\<close>.
\<close>

record history_entry =
  messy :: string
  cleaned :: string
  language :: "string option"

text \<open>
  The keys of \<open>st.session_state\<close> that the script owns. A missing
  \<open>show_explanation_only\<close> reads as \<open>False\<close> everywhere in the script, so the key is
  a boolean here.
\<close>

record session_state =
  history :: "history_entry list"
  clear_triggered :: bool
  text_input_value :: string
  show_explanation_only :: bool

definition initial_session :: session_state where
  "initial_session =
     \<lparr>history = [], clear_triggered = False, text_input_value = [],
      show_explanation_only = False\<rparr>"

section \<open>Collaborators and frontend events\<close>

text \<open>
  \<open>chain.invoke\<close> and \<open>explain_chain.invoke\<close> take the code and the language and either
  return the text of the completion or raise; the script catches nothing they raise.
\<close>

datatype service_error = ServiceError

datatype prompt = CleanPrompt | ExplainPrompt

record collaborators =
  guess_lexer :: "(string \<Rightarrow> guess_outcome) option"
  chain :: "string \<Rightarrow> string option \<Rightarrow> service_error + string"
  explain_chain :: "string \<Rightarrow> string option \<Rightarrow> service_error + string"

text \<open>
  What the frontend hands to one run of the script: the uploaded file, the value of the
  text area and the buttons.
\<close>

record events =
  uploaded_file :: "uploaded option"
  main_code_input :: string
  optimize_btn :: bool
  explain_btn :: bool
  revert_btn :: bool
  clear_btn :: bool
  explain_optimized_btn :: bool

text \<open>What a run puts on the page, in order.\<close>

datatype widget =
    TextArea string
  | Warning string
  | Success string
  | Explanation string
  | Comparison string string "string option"
  | Download string string
  | OptimizedExplanation string

text \<open>
  How a run ends: it reaches the end of the script, \<open>st.stop()\<close> or \<open>st.rerun()\<close>
  ends it, or a collaborator raises.
\<close>

datatype control = Running | Stopped | Rerun | Raised service_error

text \<open>
  The state of one run: the session, the script's variables, the page so far, and the
  calls made to the completion service and to the lexer-guessing heuristic.
\<close>

record run =
  session :: session_state
  messy_code :: string
  optimized :: "string option"
  detected_language :: "string option"
  page :: "widget list"
  llm_calls :: "(prompt \<times> string \<times> string option) list"
  guess_calls :: "string list"
  ctl :: control

section \<open>One run of the script\<close>

text \<open>The \<open>on_change\<close> callback of the text area, run by the frontend before the script.\<close>

definition on_change :: "events \<Rightarrow> session_state \<Rightarrow> session_state" where
  "on_change ev s = s\<lparr>text_input_value := main_code_input ev\<rparr>"

definition get_initial_code :: "events \<Rightarrow> session_state \<Rightarrow> string" where
  "get_initial_code ev s =
     (case uploaded_file ev of
        None \<Rightarrow> text_input_value s
      | Some f \<Rightarrow> if file_text f \<noteq> [] then file_text f else text_input_value s)"

text \<open>Lines 92 to 117: the text area is drawn and its value becomes \<open>messy_code\<close>.\<close>

definition begin_run :: "events \<Rightarrow> session_state \<Rightarrow> run" where
  "begin_run ev s =
     \<lparr>session = s,
      messy_code = main_code_input ev,
      optimized = None,
      detected_language = None,
      page = [TextArea (if clear_triggered s then [] else get_initial_code ev s)],
      llm_calls = [],
      guess_calls = [],
      ctl = Running\<rparr>"

definition detect_step :: "collaborators \<Rightarrow> events \<Rightarrow> run \<Rightarrow> run" where
  "detect_step env ev r =
     (case detect_language (guess_lexer env) (uploaded_file ev) (messy_code r) of
        (detected, calls) \<Rightarrow>
          r\<lparr>detected_language := detected, guess_calls := guess_calls r @ calls\<rparr>)"

text \<open>Lines 256 and 257.\<close>

definition revert_warning :: "events \<Rightarrow> run \<Rightarrow> run" where
  "revert_warning ev r =
     (if revert_btn ev \<and> length (history (session r)) \<le> 1
      then r\<lparr>page := page r @ [Warning ''No previous version to revert to.'']\<rparr>
      else r)"

text \<open>Lines 260 to 266.\<close>

definition revert_pop :: "events \<Rightarrow> run \<Rightarrow> run" where
  "revert_pop ev r =
     (if revert_btn ev \<and> length (history (session r)) > 1
      then
        (let popped = butlast (history (session r));
             prev = last popped
         in r\<lparr>session := (session r)\<lparr>history := popped\<rparr>,
              messy_code := messy prev,
              optimized := Some (cleaned prev),
              detected_language := language prev,
              page := page r @ [Success ''Reverted to previous version.'']\<rparr>)
      else r)"

definition revert_handler :: "events \<Rightarrow> run \<Rightarrow> run" where
  "revert_handler ev r = revert_pop ev (revert_warning ev r)"

text \<open>Lines 269 to 277; \<open>st.rerun()\<close> ends the run.\<close>

definition clear_handler :: "events \<Rightarrow> run \<Rightarrow> run" where
  "clear_handler ev r =
     (if clear_btn ev
      then r\<lparr>session := (session r)\<lparr>history := [], text_input_value := [],
                                      clear_triggered := True\<rparr>,
             ctl := Rerun\<rparr>
      else r)"

text \<open>Lines 280 and 281.\<close>

definition reset_clear_flag :: "run \<Rightarrow> run" where
  "reset_clear_flag r =
     (if clear_triggered (session r)
      then r\<lparr>session := (session r)\<lparr>clear_triggered := False\<rparr>\<rparr>
      else r)"

text \<open>Lines 288 to 298.\<close>

definition optimize_handler :: "collaborators \<Rightarrow> events \<Rightarrow> run \<Rightarrow> run" where
  "optimize_handler env ev r =
     (if optimize_btn ev \<and> strip (messy_code r) \<noteq> []
      then
        (let called = r\<lparr>llm_calls := llm_calls r @
                          [(CleanPrompt, messy_code r, detected_language r)]\<rparr>
         in case chain env (messy_code r) (detected_language r) of
              Inl e \<Rightarrow> called\<lparr>ctl := Raised e\<rparr>
            | Inr text \<Rightarrow>
                called\<lparr>optimized := Some text,
                       session := (session r)
                         \<lparr>history := history (session r) @
                            [\<lparr>messy = messy_code r, cleaned = text,
                              language = detected_language r\<rparr>],
                          show_explanation_only := False\<rparr>\<rparr>)
      else r)"

text \<open>Lines 301 to 311, in three parts: line 302, lines 303 to 309, lines 310 and 311.\<close>

definition explain_start :: "run \<Rightarrow> run" where
  "explain_start r = r\<lparr>session := (session r)\<lparr>show_explanation_only := True\<rparr>\<rparr>"

definition explain_render :: "collaborators \<Rightarrow> run \<Rightarrow> run" where
  "explain_render env r =
     (let called = r\<lparr>llm_calls := llm_calls r @
                       [(ExplainPrompt, messy_code r, detected_language r)]\<rparr>
      in case explain_chain env (messy_code r) (detected_language r) of
           Inl e \<Rightarrow> called\<lparr>ctl := Raised e\<rparr>
         | Inr text \<Rightarrow> called\<lparr>page := page r @ [Explanation text]\<rparr>)"

definition explain_finish :: "run \<Rightarrow> run" where
  "explain_finish r =
     (if ctl r = Running
      then r\<lparr>session := (session r)\<lparr>show_explanation_only := False\<rparr>, ctl := Stopped\<rparr>
      else r)"

definition explain_handler :: "collaborators \<Rightarrow> events \<Rightarrow> run \<Rightarrow> run" where
  "explain_handler env ev r =
     (if explain_btn ev \<and> strip (messy_code r) \<noteq> []
      then explain_finish (explain_render env (explain_start r))
      else r)"

text \<open>
  Lines 314 to 359: the side-by-side comparison, the download button and the explanation
  of the optimized code. \<open>format_language\<close> is how the f-string of the file name prints
  the language.
\<close>

definition format_language :: "string option \<Rightarrow> string" where
  "format_language l = (case l of None \<Rightarrow> ''None'' | Some t \<Rightarrow> t)"

definition comparison_view :: "collaborators \<Rightarrow> events \<Rightarrow> run \<Rightarrow> run" where
  "comparison_view env ev r =
     (if history (session r) \<noteq> [] \<and>
         strip (cleaned (last (history (session r)))) \<noteq> [] \<and>
         strip (messy (last (history (session r)))) \<noteq> [] \<and>
         \<not> show_explanation_only (session r)
      then
        (let entry = last (history (session r));
             shown = r\<lparr>optimized := Some (cleaned entry),
                       detected_language := language entry,
                       page := page r @
                         [Comparison (messy entry) (cleaned entry) (language entry),
                          Download (cleaned entry)
                            (''optimized_code.'' @ format_language (language entry))]\<rparr>
         in if explain_optimized_btn ev
            then
              (let called = shown\<lparr>llm_calls := llm_calls shown @
                                   [(ExplainPrompt, cleaned entry, language entry)]\<rparr>
               in case explain_chain env (cleaned entry) (language entry) of
                    Inl e \<Rightarrow> called\<lparr>ctl := Raised e\<rparr>
                  | Inr text \<Rightarrow> called\<lparr>page := page shown @ [OptimizedExplanation text]\<rparr>)
            else shown)
      else r)"

text \<open>A statement of the script runs only while the run has not ended.\<close>

definition step :: "(run \<Rightarrow> run) \<Rightarrow> run \<Rightarrow> run" where
  "step f r = (if ctl r = Running then f r else r)"

definition script :: "collaborators \<Rightarrow> events \<Rightarrow> session_state \<Rightarrow> run" where
  "script env ev s =
     step (comparison_view env ev)
       (step (explain_handler env ev)
         (step (optimize_handler env ev)
           (step reset_clear_flag
             (step (clear_handler ev)
               (step (revert_handler ev)
                 (step (detect_step env ev) (begin_run ev s)))))))"

section \<open>Example inputs\<close>

text \<open>
  Collaborators and events of a few concrete runs: code pasted with no upload, the
  heuristic raising \<open>ClassNotFound\<close>, a completion service that answers, one that
  answers with an empty text, and one that raises.
\<close>

definition tidy_env :: collaborators where
  "tidy_env =
     \<lparr>guess_lexer = Some (\<lambda>t. Lexer ''Python''),
      chain = (\<lambda>code l. Inr (''# tidy'' @ code)),
      explain_chain = (\<lambda>code l. Inr ''It assigns.'')\<rparr>"

definition failing_env :: collaborators where
  "failing_env =
     \<lparr>guess_lexer = Some (\<lambda>t. ClassNotFound),
      chain = (\<lambda>code l. Inl ServiceError),
      explain_chain = (\<lambda>code l. Inl ServiceError)\<rparr>"

definition blank_env :: collaborators where
  "blank_env =
     \<lparr>guess_lexer = Some (\<lambda>t. Lexer ''Python''),
      chain = (\<lambda>code l. Inr []),
      explain_chain = (\<lambda>code l. Inr ''It assigns.'')\<rparr>"

definition no_events :: events where
  "no_events =
     \<lparr>uploaded_file = None, main_code_input = ''x=1'', optimize_btn = False,
      explain_btn = False, revert_btn = False, clear_btn = False,
      explain_optimized_btn = False\<rparr>"

definition two_entries :: session_state where
  "two_entries =
     \<lparr>history =
        [\<lparr>messy = ''x=1'', cleaned = ''x = 1'', language = Some ''python''\<rparr>,
         \<lparr>messy = ''y=2'', cleaned = ''y = 2'', language = Some ''python''\<rparr>],
      clear_triggered = False, text_input_value = ''y=2'',
      show_explanation_only = False\<rparr>"

definition optimize_first :: events where
  "optimize_first = no_events\<lparr>optimize_btn := True\<rparr>"

definition optimize_second :: events where
  "optimize_second = no_events\<lparr>main_code_input := ''y=2'', optimize_btn := True\<rparr>"

definition revert_events :: events where
  "revert_events = no_events\<lparr>revert_btn := True\<rparr>"

definition clear_events :: events where
  "clear_events = no_events\<lparr>clear_btn := True\<rparr>"

definition explain_events :: events where
  "explain_events = no_events\<lparr>explain_btn := True\<rparr>"

definition blank_events :: events where
  "blank_events =
     no_events\<lparr>main_code_input := [CHR 0x20, CHR 0x0A, CHR 0x09, CHR 0xA0, CHR 0x85],
               optimize_btn := True, explain_btn := True\<rparr>"

text \<open>
  The run up to the optimize handler: lines 1 to 285 of the script.
\<close>

definition before_optimize :: "collaborators \<Rightarrow> events \<Rightarrow> session_state \<Rightarrow> run" where
  "before_optimize env ev s =
     step reset_clear_flag
       (step (clear_handler ev)
         (step (revert_handler ev)
           (step (detect_step env ev) (begin_run ev s))))"

section \<open>Facts about the strings and the two tables\<close>

lemma lower_char_idem: "lower_char (lower_char c) = lower_char c"
  by (simp add: lower_char_def upper_letters_def lower_letters_def)

lemma lower_idem: "lower (lower s) = lower s"
  by (simp add: lower_def lower_char_idem)

lemma splitext_empty: "snd (splitext []) = []"
  by (simp add: splitext_def rfind_def)

lemma extension_entries: "list_all (\<lambda>(k, v). k \<noteq> [] \<and> v \<noteq> []) EXTENSION_TO_LANG"
  by code_simp

lemma extension_entry:
  assumes "map_of EXTENSION_TO_LANG k = Some v"
  shows "k \<noteq> [] \<and> v \<noteq> []"
proof -
  from assms have "(k, v) \<in> set EXTENSION_TO_LANG" by (rule map_of_SomeD)
  with extension_entries show ?thesis by (auto simp: list_all_iff)
qed

lemma alias_tags: "list_all (\<lambda>(k, v). v \<noteq> []) pygments_to_lang"
  by code_simp

lemma alias_tag_nonempty:
  assumes "(k, v) \<in> set pygments_to_lang"
  shows "v \<noteq> []"
  using assms alias_tags by (auto simp: list_all_iff)

text \<open>The dictionary literal has no key twice, so the association list reads as it does.\<close>

lemma distinct_aliases: "distinct (map fst pygments_to_lang)"
  by code_simp

lemma distinct_extensions: "distinct (map fst EXTENSION_TO_LANG)"
  by code_simp

text \<open>
  Every key but \<open>c++\<close> and \<open>c#\<close> is the first key of the table with its stripped form;
  these two strip to \<open>c\<close>, which the key \<open>c\<close> has before them.
\<close>

lemma stripped_aliases:
  "list_all (\<lambda>(k, v). k = ''c++'' \<or> k = ''c#'' \<or>
      stripped_match (sub_non_alnum (lower k)) pygments_to_lang = Some v) pygments_to_lang"
  by code_simp

lemma stripped_first:
  assumes "(k, v) \<in> set pygments_to_lang" and "k \<noteq> ''c++''" and "k \<noteq> ''c#''"
  shows "stripped_match (sub_non_alnum (lower k)) pygments_to_lang = Some v"
  using assms stripped_aliases by (auto simp: list_all_iff)

section \<open>Language detection: the extension, the aliases, the fallback\<close>

text \<open>
  C1. When the lower-cased extension of the uploaded file's name, leading dot included,
  is a key of \<open>EXTENSION_TO_LANG\<close>, the detected language is the tag the table gives
  it, whatever the code text and whatever the heuristic would answer, and the heuristic
  is called on no text.
\<close>

theorem extension_wins:
  assumes "map_of EXTENSION_TO_LANG (lower (snd (splitext (file_name f)))) = Some tag"
  shows "detect_language guess (Some f) code = (Some tag, [])"
proof -
  have "file_name f \<noteq> []"
  proof
    assume "file_name f = []"
    then have "lower (snd (splitext (file_name f))) = []"
      by (simp add: splitext_empty lower_def)
    with assms show False
      using extension_entry by fastforce
  qed
  then have "by_extension (Some f) = Some tag"
    using assms by (simp add: by_extension_def)
  moreover have "tag \<noteq> []"
    using assms extension_entry by blast
  ultimately show ?thesis
    by (simp add: detect_language_def truthy_def)
qed

theorem extension_wins_witness:
  "map_of EXTENSION_TO_LANG (lower (snd (splitext ''script.PY''))) = Some ''python'' \<and>
   detect_language (Some (\<lambda>t. Lexer ''JavaScript''))
     (Some \<lparr>file_name = ''script.PY'', file_text = ''var x = 1;''\<rparr>) ''var x = 1;''
   = (Some ''python'', [])"
proof -
  have h: "map_of EXTENSION_TO_LANG
      (lower (snd (splitext (file_name \<lparr>file_name = ''script.PY'', file_text = ''var x = 1;''\<rparr>))))
      = Some ''python''"
    by code_simp
  from extension_wins [OF h, of "Some (\<lambda>t. Lexer ''JavaScript'')" "''var x = 1;''"] h
  show ?thesis by simp
qed

text \<open>
  What the fallback of line 218 assigns: when the heuristic's name, lower-cased, is no key
  of \<open>pygments_to_lang\<close> and its stripped form is the stripped form of no key, the
  detected language is \<open>pygments_name\<close>, which line 162 made \<open>lexer.name.lower()\<close>.
\<close>

lemma fallback_is_lowered_name:
  assumes "map_of pygments_to_lang (lower name) = None"
    and "stripped_match (sub_non_alnum (lower name)) pygments_to_lang = None"
    and "\<not> truthy (by_extension upl)"
    and "code \<noteq> []"
    and "guess code = Lexer name"
  shows "fst (detect_language (Some guess) upl code) = Some (lower name)"
  using assms
  by (simp add: detect_language_def normalize_name_def truthy_def lower_idem)

text \<open>
  C5. The comments of the script say what the claim says: line 205 has \<open>Try direct match,
  then lowercased\<close> and line 216 has \<open>Fallback: show raw lexer name\<close>. The code
  lower-cases the name before the first lookup, so the fallback gives the lower-cased
  name. The heuristic's \<open>Text only\<close> matches no key directly, lower-cased or stripped,
  and the detected language is \<open>text only\<close>, not the name as the heuristic gave it; a
  name with a capital letter beyond ASCII goes the same way.
\<close>

theorem fallback_not_raw_name:
  "map_of pygments_to_lang ''Text only'' = None \<and>
   map_of pygments_to_lang (lower ''Text only'') = None \<and>
   stripped_match (sub_non_alnum (lower ''Text only'')) pygments_to_lang = None \<and>
   fst (detect_language (Some (\<lambda>t. Lexer ''Text only'')) None ''hello'') = Some ''text only'' \<and>
   fst (detect_language (Some (\<lambda>t. Lexer ''Text only'')) None ''hello'') \<noteq> Some ''Text only'' \<and>
   fst (detect_language (Some (\<lambda>t. Lexer [CHR 0xC9, CHR ''B''])) None ''hello'') =
     Some [CHR 0xE9, CHR ''b'']"
  by code_simp

text \<open>
  C6, as the code has it. For every key \<open>k\<close> of \<open>pygments_to_lang\<close> with tag \<open>v\<close>, a
  name that is \<open>k\<close> in any letter case is normalised to \<open>v\<close>; so is a name that is no
  key in any letter case and whose stripped form is the stripped form of \<open>k\<close>, for every
  key but \<open>c++\<close> and \<open>c#\<close>.
\<close>

theorem alias_spellings_normalize:
  assumes "(k, v) \<in> set pygments_to_lang"
    and "lower name = k \<or>
         (map_of pygments_to_lang (lower name) = None \<and>
          sub_non_alnum (lower name) = sub_non_alnum (lower k) \<and>
          k \<noteq> ''c++'' \<and> k \<noteq> ''c#'')"
  shows "normalize_name name = Some v"
proof -
  have v: "v \<noteq> []"
    using assms(1) by (rule alias_tag_nonempty)
  from assms(2) show ?thesis
  proof
    assume "lower name = k"
    then have "map_of pygments_to_lang (lower name) = Some v"
      using assms(1) distinct_aliases by simp
    with v show ?thesis
      by (simp add: normalize_name_def truthy_def)
  next
    assume h: "map_of pygments_to_lang (lower name) = None \<and>
          sub_non_alnum (lower name) = sub_non_alnum (lower k) \<and>
          k \<noteq> ''c++'' \<and> k \<noteq> ''c#''"
    then have "stripped_match (sub_non_alnum (lower name)) pygments_to_lang = Some v"
      using assms(1) stripped_first by simp
    with h v show ?thesis
      by (simp add: normalize_name_def truthy_def lower_idem)
  qed
qed

theorem alias_spellings_normalize_witness:
  "normalize_name ''C++'' = Some ''cpp'' \<and> normalize_name ''c++'' = Some ''cpp'' \<and>
   normalize_name ''Cpp'' = Some ''cpp'' \<and> normalize_name ''C# (C-Sharp)'' = Some ''csharp'' \<and>
   normalize_name ''C-Sharp!'' = Some ''csharp''"
proof -
  have cpp: "(''c++'', ''cpp'') \<in> set pygments_to_lang"
    and cpp2: "(''cpp'', ''cpp'') \<in> set pygments_to_lang"
    and cs: "(''c# (c-sharp)'', ''csharp'') \<in> set pygments_to_lang"
    and cs2: "(''c-sharp'', ''csharp'') \<in> set pygments_to_lang"
    by code_simp+
  have 1: "lower ''C++'' = ''c++''" and 2: "lower ''c++'' = ''c++''"
    and 3: "lower ''Cpp'' = ''cpp''" and 4: "lower ''C# (C-Sharp)'' = ''c# (c-sharp)''"
    by code_simp+
  have 5: "map_of pygments_to_lang (lower ''C-Sharp!'') = None \<and>
          sub_non_alnum (lower ''C-Sharp!'') = sub_non_alnum (lower ''c-sharp'') \<and>
          ''c-sharp'' \<noteq> ''c++'' \<and> ''c-sharp'' \<noteq> ''c#''"
    by code_simp
  from alias_spellings_normalize [OF cpp disjI1, OF 1]
    alias_spellings_normalize [OF cpp disjI1, OF 2]
    alias_spellings_normalize [OF cpp2 disjI1, OF 3]
    alias_spellings_normalize [OF cs disjI1, OF 4]
    alias_spellings_normalize [OF cs2 disjI2, OF 5]
  show ?thesis by simp
qed

text \<open>
  C6, as the claim has it, fails for the spellings of \<open>c++\<close> and \<open>c#\<close> that match
  only after stripping. \<open>C ++\<close> is no key in any letter case, and stripped it is
  \<open>c\<close>, as the key \<open>c++\<close> is; the loop stops at the key \<open>c\<close>, which comes first
  in the table, and the name is normalised to \<open>c\<close>, not to \<open>cpp\<close>. \<open>C #\<close> goes the
  same way.
\<close>

theorem stripped_cpp_is_c:
  "(''c++'', ''cpp'') \<in> set pygments_to_lang \<and>
   map_of pygments_to_lang (lower ''C ++'') = None \<and>
   sub_non_alnum (lower ''C ++'') = sub_non_alnum (lower ''c++'') \<and>
   normalize_name ''C++'' = Some ''cpp'' \<and>
   normalize_name ''C ++'' = Some ''c'' \<and>
   normalize_name ''C ++'' \<noteq> Some ''cpp'' \<and>
   (''c#'', ''csharp'') \<in> set pygments_to_lang \<and>
   sub_non_alnum (lower ''C #'') = sub_non_alnum (lower ''c#'') \<and>
   normalize_name ''C #'' = Some ''c''"
  by code_simp

text \<open>
  C7. When the heuristic is called and raises \<open>ClassNotFound\<close>, the detected language is
  \<open>None\<close>, and the run goes on as it was: nothing is raised, nothing is put on the
  page, the session is untouched.
\<close>

theorem class_not_found_is_none:
  assumes "guess_lexer env = Some guess"
    and "guess (messy_code r) = ClassNotFound"
    and "messy_code r \<noteq> []"
    and "\<not> truthy (by_extension (uploaded_file ev))"
  shows "detected_language (detect_step env ev r) = None \<and>
         ctl (detect_step env ev r) = ctl r \<and>
         page (detect_step env ev r) = page r \<and>
         session (detect_step env ev r) = session r"
  using assms by (simp add: detect_step_def detect_language_def)

theorem class_not_found_is_none_witness:
  "detected_language (detect_step failing_env no_events (begin_run no_events initial_session))
     = None \<and>
   ctl (detect_step failing_env no_events (begin_run no_events initial_session)) = Running \<and>
   page (detect_step failing_env no_events (begin_run no_events initial_session))
     = [TextArea []]"
proof -
  have a: "guess_lexer failing_env = Some (\<lambda>t. ClassNotFound)"
    by (simp add: failing_env_def)
  have b: "(\<lambda>t. ClassNotFound) (messy_code (begin_run no_events initial_session))
             = ClassNotFound"
    by simp
  have c: "messy_code (begin_run no_events initial_session) \<noteq> []"
    by (simp add: begin_run_def no_events_def)
  have d: "\<not> truthy (by_extension (uploaded_file no_events))"
    by (simp add: no_events_def by_extension_def truthy_def)
  from class_not_found_is_none [OF a b c d]
  show ?thesis
    by (simp add: begin_run_def initial_session_def get_initial_code_def no_events_def)
qed

section \<open>The steps of a run\<close>

lemma step_running: "ctl r = Running \<Longrightarrow> step f r = f r"
  by (simp add: step_def)

lemma step_ended: "ctl r \<noteq> Running \<Longrightarrow> step f r = r"
  by (simp add: step_def)

lemma detect_step_frame:
  "ctl (detect_step env ev r) = ctl r \<and> session (detect_step env ev r) = session r \<and>
   messy_code (detect_step env ev r) = messy_code r \<and> page (detect_step env ev r) = page r \<and>
   llm_calls (detect_step env ev r) = llm_calls r \<and>
   detected_language (detect_step env ev r) =
     fst (detect_language (guess_lexer env) (uploaded_file ev) (messy_code r))"
  by (simp add: detect_step_def split: prod.split)

lemma revert_handler_off: "\<not> revert_btn ev \<Longrightarrow> revert_handler ev r = r"
  by (simp add: revert_handler_def revert_pop_def revert_warning_def)

lemma revert_handler_ctl: "ctl (revert_handler ev r) = ctl r"
  by (simp add: revert_handler_def revert_pop_def revert_warning_def Let_def)

lemma clear_handler_off: "\<not> clear_btn ev \<Longrightarrow> clear_handler ev r = r"
  by (simp add: clear_handler_def)

lemma reset_clear_flag_frame:
  "ctl (reset_clear_flag r) = ctl r \<and> history (session (reset_clear_flag r)) = history (session r) \<and>
   messy_code (reset_clear_flag r) = messy_code r \<and>
   detected_language (reset_clear_flag r) = detected_language r"
  by (simp add: reset_clear_flag_def)

lemma explain_handler_history:
  "history (session (explain_handler env ev r)) = history (session r) \<and>
   text_input_value (session (explain_handler env ev r)) = text_input_value (session r) \<and>
   clear_triggered (session (explain_handler env ev r)) = clear_triggered (session r)"
  by (simp add: explain_handler_def explain_finish_def explain_render_def explain_start_def
      Let_def split: sum.split)

lemma comparison_view_session: "session (comparison_view env ev r) = session r"
  by (simp add: comparison_view_def Let_def split: sum.split)

lemma step_session:
  "(\<And>r. session (f r) = session r) \<Longrightarrow> session (step f r) = session r"
  by (simp add: step_def)

lemma before_optimize_plain:
  assumes "\<not> revert_btn ev" and "\<not> clear_btn ev"
  shows "ctl (before_optimize env ev s) = Running \<and>
         history (session (before_optimize env ev s)) = history s \<and>
         messy_code (before_optimize env ev s) = main_code_input ev \<and>
         detected_language (before_optimize env ev s) =
           fst (detect_language (guess_lexer env) (uploaded_file ev) (main_code_input ev))"
proof -
  let ?r0 = "begin_run ev s"
  let ?r1 = "detect_step env ev ?r0"
  have r0: "ctl ?r0 = Running" "session ?r0 = s" "messy_code ?r0 = main_code_input ev"
    by (simp_all add: begin_run_def)
  have s1: "step (detect_step env ev) ?r0 = ?r1"
    using r0 by (simp add: step_running)
  have r1: "ctl ?r1 = Running" "session ?r1 = s" "messy_code ?r1 = main_code_input ev"
    "detected_language ?r1 =
       fst (detect_language (guess_lexer env) (uploaded_file ev) (main_code_input ev))"
    using r0 detect_step_frame [of env ev ?r0] by simp_all
  have s3: "step (clear_handler ev) (step (revert_handler ev) ?r1) = ?r1"
    using assms r1 by (simp add: step_running revert_handler_off clear_handler_off)
  have "before_optimize env ev s = reset_clear_flag ?r1"
    unfolding before_optimize_def s1 s3 using r1 by (simp add: step_running)
  then show ?thesis
    using r1 reset_clear_flag_frame [of ?r1] by simp
qed

lemma step_comparison_session: "session (step (comparison_view env ev) r) = session r"
  by (simp add: step_def comparison_view_session)

lemma step_explain_history:
  "history (session (step (explain_handler env ev) r)) = history (session r)"
  by (simp add: step_def explain_handler_history)

lemma script_from_before_optimize:
  "script env ev s =
   step (comparison_view env ev)
     (step (explain_handler env ev)
       (step (optimize_handler env ev) (before_optimize env ev s)))"
  by (simp add: script_def before_optimize_def)

lemma script_history_after_optimize:
  "history (session (script env ev s)) =
   history (session (step (optimize_handler env ev) (before_optimize env ev s)))"
  by (simp only: script_from_before_optimize step_comparison_session step_explain_history)

lemma optimize_handler_appends:
  assumes "optimize_btn ev" and "strip (messy_code r) \<noteq> []"
    and "chain env (messy_code r) (detected_language r) = Inr text"
  shows "history (session (optimize_handler env ev r)) =
         history (session r) @
           [\<lparr>messy = messy_code r, cleaned = text, language = detected_language r\<rparr>]"
  using assms by (simp add: optimize_handler_def)

lemma script_optimize_history:
  assumes "optimize_btn ev" and "\<not> revert_btn ev" and "\<not> clear_btn ev"
    and "strip (main_code_input ev) \<noteq> []"
    and "chain env (main_code_input ev)
           (fst (detect_language (guess_lexer env) (uploaded_file ev) (main_code_input ev)))
         = Inr text"
  shows "history (session (script env ev s)) =
         history s @
           [\<lparr>messy = main_code_input ev, cleaned = text,
             language = fst (detect_language (guess_lexer env) (uploaded_file ev)
                               (main_code_input ev))\<rparr>]"
proof -
  let ?b = "before_optimize env ev s"
  have b: "ctl ?b = Running" "history (session ?b) = history s"
    "messy_code ?b = main_code_input ev"
    "detected_language ?b =
       fst (detect_language (guess_lexer env) (uploaded_file ev) (main_code_input ev))"
    using before_optimize_plain [OF assms(2,3), of env s] by simp_all
  have "history (session (script env ev s)) = history (session (optimize_handler env ev ?b))"
    using b(1) by (simp add: script_history_after_optimize step_running)
  also have "\<dots> = history (session ?b) @
      [\<lparr>messy = messy_code ?b, cleaned = text, language = detected_language ?b\<rparr>]"
    using assms(1,4,5) b by (intro optimize_handler_appends) simp_all
  finally show ?thesis using b by simp
qed

section \<open>Optimize, revert, clear and explain\<close>

text \<open>
  C2. A run in which Optimize Code is pressed (and neither Revert nor Clear All), on code
  that is not blank, whose completion call returns, leaves the history it found with one
  entry appended: the code, the returned text and the detected language. Two such runs in
  sequence append the first run's entry and then the second's; from an empty history the
  result has length 2 and the first run's entry at index 0.
\<close>

theorem optimize_appends:
  assumes "optimize_btn ev1" and "\<not> revert_btn ev1" and "\<not> clear_btn ev1"
    and "strip (main_code_input ev1) \<noteq> []"
    and "chain env1 (main_code_input ev1)
           (fst (detect_language (guess_lexer env1) (uploaded_file ev1) (main_code_input ev1)))
         = Inr text1"
    and "optimize_btn ev2" and "\<not> revert_btn ev2" and "\<not> clear_btn ev2"
    and "strip (main_code_input ev2) \<noteq> []"
    and "chain env2 (main_code_input ev2)
           (fst (detect_language (guess_lexer env2) (uploaded_file ev2) (main_code_input ev2)))
         = Inr text2"
  shows "history (session (script env1 ev1 s)) =
           history s @
             [\<lparr>messy = main_code_input ev1, cleaned = text1,
               language = fst (detect_language (guess_lexer env1) (uploaded_file ev1)
                                 (main_code_input ev1))\<rparr>] \<and>
         history (session (script env2 ev2 (session (script env1 ev1 s)))) =
           history s @
             [\<lparr>messy = main_code_input ev1, cleaned = text1,
               language = fst (detect_language (guess_lexer env1) (uploaded_file ev1)
                                 (main_code_input ev1))\<rparr>,
              \<lparr>messy = main_code_input ev2, cleaned = text2,
               language = fst (detect_language (guess_lexer env2) (uploaded_file ev2)
                                 (main_code_input ev2))\<rparr>] \<and>
         (history s = [] \<longrightarrow>
            length (history (session (script env2 ev2 (session (script env1 ev1 s))))) = 2 \<and>
            history (session (script env2 ev2 (session (script env1 ev1 s)))) ! 0 =
              \<lparr>messy = main_code_input ev1, cleaned = text1,
               language = fst (detect_language (guess_lexer env1) (uploaded_file ev1)
                                 (main_code_input ev1))\<rparr>)"
  using script_optimize_history [OF assms(1-5), of s]
    script_optimize_history [OF assms(6-10), of "session (script env1 ev1 s)"]
  by simp

theorem optimize_appends_witness:
  "history (session (script tidy_env optimize_first initial_session)) =
     [\<lparr>messy = ''x=1'', cleaned = ''# tidyx=1'', language = Some ''python''\<rparr>] \<and>
   history (session (script tidy_env optimize_second
                       (session (script tidy_env optimize_first initial_session)))) =
     [\<lparr>messy = ''x=1'', cleaned = ''# tidyx=1'', language = Some ''python''\<rparr>,
      \<lparr>messy = ''y=2'', cleaned = ''# tidyy=2'', language = Some ''python''\<rparr>] \<and>
   length (history (session (script tidy_env optimize_second
                       (session (script tidy_env optimize_first initial_session))))) = 2 \<and>
   history (session (script tidy_env optimize_second
                       (session (script tidy_env optimize_first initial_session)))) ! 0 =
     \<lparr>messy = ''x=1'', cleaned = ''# tidyx=1'', language = Some ''python''\<rparr>"
proof -
  have l1: "fst (detect_language (guess_lexer tidy_env) (uploaded_file optimize_first)
                   ''x=1'') = Some ''python''"
    and l2: "fst (detect_language (guess_lexer tidy_env) (uploaded_file optimize_second)
                   ''y=2'') = Some ''python''"
    by code_simp+
  have b1: "optimize_btn optimize_first" "\<not> revert_btn optimize_first"
    "\<not> clear_btn optimize_first" "main_code_input optimize_first = ''x=1''"
    and b2: "optimize_btn optimize_second" "\<not> revert_btn optimize_second"
    "\<not> clear_btn optimize_second" "main_code_input optimize_second = ''y=2''"
    by (simp_all add: optimize_first_def optimize_second_def no_events_def)
  have s1: "strip (main_code_input optimize_first) \<noteq> []"
    and s2: "strip (main_code_input optimize_second) \<noteq> []"
    by code_simp+
  have c1: "chain tidy_env (main_code_input optimize_first)
      (fst (detect_language (guess_lexer tidy_env) (uploaded_file optimize_first)
             (main_code_input optimize_first))) = Inr ''# tidyx=1''"
    and c2: "chain tidy_env (main_code_input optimize_second)
      (fst (detect_language (guess_lexer tidy_env) (uploaded_file optimize_second)
             (main_code_input optimize_second))) = Inr ''# tidyy=2''"
    by (simp_all add: tidy_env_def b1 b2)
  have h: "history initial_session = []"
    by (simp add: initial_session_def)
  from optimize_appends [OF b1(1-3) s1 c1 b2(1-3) s2 c2, of initial_session]
  show ?thesis by (simp add: h b1(4) b2(4) l1 l2)
qed

text \<open>
  C3. With Revert pressed and at most one entry in the history, the revert handler changes
  nothing but the page, to which it adds the warning. With more than one entry it removes
  the last one, so the history is one shorter, and \<open>messy_code\<close>, \<open>optimized\<close> and
  \<open>detected_language\<close> are those of the new last entry.
\<close>

theorem revert_cases:
  assumes "revert_btn ev"
  shows "(length (history (session r)) \<le> 1 \<longrightarrow>
            revert_handler ev r =
              r\<lparr>page := page r @ [Warning ''No previous version to revert to.'']\<rparr>) \<and>
         (1 < length (history (session r)) \<longrightarrow>
            history (session (revert_handler ev r)) = butlast (history (session r)) \<and>
            length (history (session (revert_handler ev r))) =
              length (history (session r)) - 1 \<and>
            messy_code (revert_handler ev r) =
              messy (last (history (session (revert_handler ev r)))) \<and>
            optimized (revert_handler ev r) =
              Some (cleaned (last (history (session (revert_handler ev r))))) \<and>
            detected_language (revert_handler ev r) =
              language (last (history (session (revert_handler ev r)))) \<and>
            page (revert_handler ev r) = page r @ [Success ''Reverted to previous version.''] \<and>
            text_input_value (session (revert_handler ev r)) = text_input_value (session r) \<and>
            ctl (revert_handler ev r) = ctl r)"
  using assms
  by (simp add: revert_handler_def revert_warning_def revert_pop_def Let_def)

theorem revert_cases_witness:
  "revert_handler revert_events (begin_run revert_events initial_session) =
     (begin_run revert_events initial_session)
       \<lparr>page := [TextArea [], Warning ''No previous version to revert to.'']\<rparr> \<and>
   history (session (revert_handler revert_events (begin_run revert_events two_entries))) =
     [\<lparr>messy = ''x=1'', cleaned = ''x = 1'', language = Some ''python''\<rparr>] \<and>
   messy_code (revert_handler revert_events (begin_run revert_events two_entries)) = ''x=1'' \<and>
   optimized (revert_handler revert_events (begin_run revert_events two_entries))
     = Some ''x = 1'' \<and>
   detected_language (revert_handler revert_events (begin_run revert_events two_entries))
     = Some ''python''"
proof -
  have b: "revert_btn revert_events"
    by (simp add: revert_events_def no_events_def)
  have h0: "history (session (begin_run revert_events initial_session)) = []"
    and p0: "page (begin_run revert_events initial_session) = [TextArea []]"
    by (simp_all add: begin_run_def initial_session_def get_initial_code_def
        revert_events_def no_events_def)
  have h2: "history (session (begin_run revert_events two_entries)) =
      [\<lparr>messy = ''x=1'', cleaned = ''x = 1'', language = Some ''python''\<rparr>,
       \<lparr>messy = ''y=2'', cleaned = ''y = 2'', language = Some ''python''\<rparr>]"
    by (simp add: begin_run_def two_entries_def)
  from revert_cases [OF b, of "begin_run revert_events initial_session"]
    revert_cases [OF b, of "begin_run revert_events two_entries"]
  show ?thesis by (simp add: h0 p0 h2)
qed

text \<open>
  C4, as the code has it. When the history is not empty, \<open>show_explanation_only\<close> is
  false, and neither the cleaned code nor the original code of the last entry is blank,
  the comparison shows the last entry: its original code, its cleaned code and its
  language, with the download of the cleaned code.
\<close>

theorem comparison_shows_last:
  assumes "history (session r) \<noteq> []"
    and "\<not> show_explanation_only (session r)"
    and "strip (cleaned (last (history (session r)))) \<noteq> []"
    and "strip (messy (last (history (session r)))) \<noteq> []"
  shows "take (length (page r) + 2) (page (comparison_view env ev r)) =
           page r @
             [Comparison (messy (last (history (session r))))
                (cleaned (last (history (session r))))
                (language (last (history (session r)))),
              Download (cleaned (last (history (session r))))
                (''optimized_code.'' @ format_language (language (last (history (session r)))))] \<and>
         optimized (comparison_view env ev r) = Some (cleaned (last (history (session r)))) \<and>
         detected_language (comparison_view env ev r) = language (last (history (session r)))"
  using assms
  by (simp add: comparison_view_def Let_def split: sum.split)

theorem comparison_shows_last_witness:
  "take 3 (page (comparison_view tidy_env no_events (begin_run no_events two_entries))) =
     [TextArea ''y=2'', Comparison ''y=2'' ''y = 2'' (Some ''python''),
      Download ''y = 2'' ''optimized_code.python''] \<and>
   optimized (comparison_view tidy_env no_events (begin_run no_events two_entries))
     = Some ''y = 2''"
proof -
  let ?r = "begin_run no_events two_entries"
  have h: "history (session ?r) =
      [\<lparr>messy = ''x=1'', cleaned = ''x = 1'', language = Some ''python''\<rparr>,
       \<lparr>messy = ''y=2'', cleaned = ''y = 2'', language = Some ''python''\<rparr>]"
    and f: "\<not> show_explanation_only (session ?r)"
    and p: "page ?r = [TextArea ''y=2'']"
    by (simp_all add: begin_run_def two_entries_def get_initial_code_def no_events_def)
  have a: "history (session ?r) \<noteq> []" by (simp add: h)
  have c: "strip (cleaned (last (history (session ?r)))) \<noteq> []"
    and m: "strip (messy (last (history (session ?r)))) \<noteq> []"
    unfolding h by code_simp+
  from comparison_shows_last [OF a f c m, of tidy_env no_events]
  show ?thesis by (simp add: h p format_language_def numeral_3_eq_3)
qed

text \<open>
  C4, as the claim has it, fails. From the initial session, one run with Optimize Code
  pressed and a completion service that answers with the empty text ends with one entry
  in the history and \<open>show_explanation_only\<close> false; that run and the next one show the
  text area and nothing else.
\<close>

theorem comparison_needs_cleaned_text:
  "ctl (script blank_env optimize_first initial_session) = Running \<and>
   history (session (script blank_env optimize_first initial_session)) =
     [\<lparr>messy = ''x=1'', cleaned = [], language = Some ''python''\<rparr>] \<and>
   \<not> show_explanation_only (session (script blank_env optimize_first initial_session)) \<and>
   page (script blank_env optimize_first initial_session) = [TextArea []] \<and>
   page (script blank_env no_events (session (script blank_env optimize_first initial_session)))
     = [TextArea []]"
  by code_simp


lemma before_clear_running:
  "ctl (step (revert_handler ev) (step (detect_step env ev) (begin_run ev s))) = Running"
proof -
  have "ctl (begin_run ev s) = Running"
    by (simp add: begin_run_def)
  then show ?thesis
    using detect_step_frame [of env ev "begin_run ev s"] revert_handler_ctl
    by (simp add: step_def)
qed

text \<open>
  C8. A run in which Clear All is pressed ends, whatever the session it started from,
  with an empty history and an empty \<open>text_input_value\<close>, makes no call to the completion
  service and asks for a rerun; the text area of the next run is drawn with the empty
  text, whatever the events of that run.
\<close>

theorem clear_all_resets:
  assumes "clear_btn ev"
  shows "history (session (script env ev s)) = [] \<and>
         text_input_value (session (script env ev s)) = [] \<and>
         clear_triggered (session (script env ev s)) \<and>
         ctl (script env ev s) = Rerun \<and>
         llm_calls (script env ev s) = [] \<and>
         page (begin_run ev' (session (script env ev s))) = [TextArea []]"
proof -
  let ?b = "step (revert_handler ev) (step (detect_step env ev) (begin_run ev s))"
  let ?c = "clear_handler ev ?b"
  have calls: "llm_calls ?b = []"
    using detect_step_frame [of env ev "begin_run ev s"]
    by (simp add: step_def begin_run_def revert_handler_def revert_pop_def
        revert_warning_def Let_def)
  have c: "ctl ?c = Rerun" "history (session ?c) = []" "text_input_value (session ?c) = []"
    "clear_triggered (session ?c)" "llm_calls ?c = llm_calls ?b"
    using assms by (simp_all add: clear_handler_def)
  have "script env ev s = ?c"
    unfolding script_def using before_clear_running [of ev env s] c(1)
    by (simp add: step_def)
  then show ?thesis
    using c calls by (simp add: begin_run_def)
qed

theorem clear_all_resets_witness:
  "history (session (script tidy_env clear_events two_entries)) = [] \<and>
   text_input_value (session (script tidy_env clear_events two_entries)) = [] \<and>
   ctl (script tidy_env clear_events two_entries) = Rerun \<and>
   page (begin_run no_events (session (script tidy_env clear_events two_entries)))
     = [TextArea []]"
proof -
  have b: "clear_btn clear_events"
    by (simp add: clear_events_def no_events_def)
  from clear_all_resets [OF b, of tidy_env two_entries no_events]
  show ?thesis by simp
qed

text \<open>
  With Explain Code pressed on code that is not blank, the explain handler leaves the
  history and \<open>text_input_value\<close> as they were, whether the completion call returns or
  raises. When it returns, the flag \<open>show_explanation_only\<close> is true from line 302 until
  the explanation is on the page, and false when the handler ends the run with
  \<open>st.stop()\<close>.
\<close>

lemma explain_frame:
  assumes "explain_btn ev" and "strip (messy_code r) \<noteq> []" and "ctl r = Running"
  shows "history (session (explain_handler env ev r)) = history (session r) \<and>
         text_input_value (session (explain_handler env ev r)) = text_input_value (session r) \<and>
         (explain_chain env (messy_code r) (detected_language r) = Inr text \<longrightarrow>
            show_explanation_only (session (explain_start r)) \<and>
            show_explanation_only (session (explain_render env (explain_start r))) \<and>
            page (explain_render env (explain_start r)) = page r @ [Explanation text] \<and>
            \<not> show_explanation_only (session (explain_handler env ev r)) \<and>
            page (explain_handler env ev r) = page r @ [Explanation text] \<and>
            ctl (explain_handler env ev r) = Stopped)"
proof -
  have "explain_chain env (messy_code r) (detected_language r) = Inr text \<Longrightarrow>
        show_explanation_only (session (explain_start r)) \<and>
        show_explanation_only (session (explain_render env (explain_start r))) \<and>
        page (explain_render env (explain_start r)) = page r @ [Explanation text] \<and>
        \<not> show_explanation_only (session (explain_handler env ev r)) \<and>
        page (explain_handler env ev r) = page r @ [Explanation text] \<and>
        ctl (explain_handler env ev r) = Stopped"
    using assms
    by (simp add: explain_handler_def explain_finish_def explain_render_def explain_start_def
        Let_def)
  then show ?thesis
    using explain_handler_history [of env ev r] by blast
qed

lemma explain_frame_example:
  "history (session (explain_handler tidy_env explain_events
              (begin_run explain_events two_entries))) = history two_entries \<and>
   text_input_value (session (explain_handler tidy_env explain_events
              (begin_run explain_events two_entries))) = ''y=2'' \<and>
   show_explanation_only (session (explain_render tidy_env
              (explain_start (begin_run explain_events two_entries)))) \<and>
   \<not> show_explanation_only (session (explain_handler tidy_env explain_events
              (begin_run explain_events two_entries))) \<and>
   page (explain_handler tidy_env explain_events (begin_run explain_events two_entries)) =
     [TextArea ''y=2'', Explanation ''It assigns.''] \<and>
   ctl (explain_handler tidy_env explain_events (begin_run explain_events two_entries))
     = Stopped"
proof -
  let ?r = "begin_run explain_events two_entries"
  have b: "explain_btn explain_events"
    by (simp add: explain_events_def no_events_def)
  have m: "messy_code ?r = ''x=1''" and c: "ctl ?r = Running"
    and p: "page ?r = [TextArea ''y=2'']" and s: "session ?r = two_entries"
    by (simp_all add: begin_run_def explain_events_def no_events_def get_initial_code_def
        two_entries_def)
  have n: "strip (messy_code ?r) \<noteq> []"
    unfolding m by code_simp
  have e: "explain_chain tidy_env (messy_code ?r) (detected_language ?r) = Inr ''It assigns.''"
    by (simp add: tidy_env_def)
  have t: "text_input_value two_entries = ''y=2''"
    by (simp add: two_entries_def)
  from explain_frame [OF b n c, of tidy_env "''It assigns.''"] e
  show ?thesis by (simp add: p s t)
qed

text \<open>
  When the completion call raises, the run ends between line 302 and line 310: the flag
  is true and nothing resets it.
\<close>

lemma explain_failure_keeps_flag:
  assumes "explain_btn ev" and "strip (messy_code r) \<noteq> []"
    and "explain_chain env (messy_code r) (detected_language r) = Inl e"
  shows "show_explanation_only (session (explain_handler env ev r)) \<and>
         ctl (explain_handler env ev r) = Raised e"
  using assms
  by (simp add: explain_handler_def explain_finish_def explain_render_def explain_start_def
      Let_def)

text \<open>
  C9. Line 310 resets the flag with the comment \<open>Reset for next run\<close>, and the claim
  holds when the completion call returns. When it raises, the code misses the reset:
  from a session with two entries and the flag false, a run with Explain Code pressed
  ends raised, with the history as it was and the flag true; the next run, with no button
  pressed, finds the flag true and shows no comparison, and so does a run with Revert
  pressed after it.
\<close>

theorem failed_explain_leaves_flag:
  "\<not> show_explanation_only two_entries \<and>
   ctl (script failing_env explain_events two_entries) = Raised ServiceError \<and>
   history (session (script failing_env explain_events two_entries)) = history two_entries \<and>
   show_explanation_only (session (script failing_env explain_events two_entries)) \<and>
   show_explanation_only
     (session (script tidy_env no_events
                (session (script failing_env explain_events two_entries)))) \<and>
   page (script tidy_env no_events (session (script failing_env explain_events two_entries)))
     = [TextArea ''y=2''] \<and>
   page (script tidy_env revert_events
           (session (script failing_env explain_events two_entries)))
     = [TextArea ''y=2'', Success ''Reverted to previous version.'']"
  by code_simp

text \<open>
  C10. On code that \<open>str.strip\<close> leaves empty (the empty text, or blanks only, U+0085
  and U+00A0 among them), the optimize handler and the explain handler change nothing of
  the run, whatever the buttons: no call to the completion service, no history entry, the
  same session. The test is the handlers' own first line.
\<close>

theorem blank_code_is_noop:
  assumes "strip (messy_code r) = []"
  shows "optimize_handler env ev r = r \<and> explain_handler env ev r = r"
  using assms by (simp add: optimize_handler_def explain_handler_def)

theorem blank_code_is_noop_witness:
  "optimize_btn blank_events \<and> explain_btn blank_events \<and>
   optimize_handler tidy_env blank_events (begin_run blank_events two_entries) =
     begin_run blank_events two_entries \<and>
   explain_handler tidy_env blank_events (begin_run blank_events two_entries) =
     begin_run blank_events two_entries \<and>
   llm_calls (optimize_handler tidy_env blank_events (begin_run blank_events two_entries)) = [] \<and>
   session (explain_handler tidy_env blank_events (begin_run blank_events two_entries)) =
     two_entries"
proof -
  let ?r = "begin_run blank_events two_entries"
  have m: "messy_code ?r = [CHR 0x20, CHR 0x0A, CHR 0x09, CHR 0xA0, CHR 0x85]"
    and l: "llm_calls ?r = []" and s: "session ?r = two_entries"
    and b: "optimize_btn blank_events" "explain_btn blank_events"
    by (simp_all add: begin_run_def blank_events_def no_events_def)
  have n: "strip (messy_code ?r) = []"
    unfolding m by code_simp
  from blank_code_is_noop [OF n, of tidy_env blank_events]
  show ?thesis by (simp add: l s b)
qed

end
